theory Spec2Isabelle
  imports Main
begin

section \<open>Data model\<close>

text \<open>
  The task routes of the to-do list backend (\<^verbatim>\<open>routes/tasks.js\<close>) over the Mongoose
  schema of a task (\<^verbatim>\<open>models/Task.js\<close>). Object identifiers are natural numbers,
  instants are milliseconds since the epoch, and the collection is the list of its
  documents in insertion order.
\<close>

type_synonym object_id = nat
type_synonym timestamp = int

record task =
  task_id :: object_id
  title :: string
  description :: "string option"
  category :: string
  priority :: string
  status :: string
  dueDate :: "timestamp option"
  reminder :: "timestamp option"
  order :: int
  user :: object_id
  createdAt :: timestamp
  completedAt :: "timestamp option"

text \<open>
  What a request handler reads from its surroundings: the clock (\<^verbatim>\<open>new Date()\<close>, read
  once per request), the offset of the server's local time zone from UTC in milliseconds
  (local time is UTC plus the offset; the offset is taken as fixed), the validator
  \<^verbatim>\<open>isISO8601\<close> of express-validator and the date parser of the runtime
  (\<^verbatim>\<open>new Date(text)\<close>, \<open>None\<close> for an invalid date).
\<close>

record env =
  now :: timestamp
  tz_offset :: int
  isISO8601 :: "string \<Rightarrow> bool"
  parseDate :: "string \<Rightarrow> timestamp option"

text \<open>
  The body of a create or update request: each schema path is present with a value or
  absent (\<open>None\<close>). Text fields carry strings; dates arrive as text.
\<close>

record payload =
  p_title :: "string option"
  p_description :: "string option"
  p_category :: "string option"
  p_priority :: "string option"
  p_status :: "string option"
  p_dueDate :: "string option"
  p_reminder :: "string option"
  p_order :: "int option"
  p_user :: "object_id option"
  p_completedAt :: "timestamp option"

text \<open>An entry of \<^verbatim>\<open>errors.array()\<close>: the field and the message.\<close>

type_synonym verror = "string \<times> string"

text \<open>
  The responses that are not successes: 400 with the itemized validation errors, 400
  with a message, 404 with a message, and 500 (every \<^verbatim>\<open>catch\<close> block).
\<close>

datatype failure =
  ValidationFailed "verror list"
  | BadRequest string
  | NotFound string
  | ServerFault

fun http_status :: "failure \<Rightarrow> nat" where
  "http_status (ValidationFailed es) = 400"
| "http_status (BadRequest m) = 400"
| "http_status (NotFound m) = 404"
| "http_status ServerFault = 500"

section \<open>Validation middleware\<close>

text \<open>
  Whitespace as \<^verbatim>\<open>trim()\<close> removes it, among the characters below 256: tab, line feed,
  vertical tab, form feed, carriage return, space and no-break space.
\<close>

definition is_space :: "char \<Rightarrow> bool" where
  "is_space c \<longleftrightarrow>
     c \<in> set [CHR 0x09, CHR 0x0A, CHR 0x0B, CHR 0x0C, CHR 0x0D, CHR 0x20, CHR 0xA0]"

definition trim :: "string \<Rightarrow> string" where
  "trim s = rev (dropWhile is_space (rev (dropWhile is_space s)))"

definition categories :: "string list" where
  "categories = [''Personal'', ''Work'', ''Study'', ''Health'', ''Other'']"

definition priorities :: "string list" where
  "priorities = [''Low'', ''Medium'', ''High'']"

definition statuses :: "string list" where
  "statuses = [''Pending'', ''In Progress'', ''Completed'']"

text \<open>
  A validator of a chain without \<^verbatim>\<open>optional()\<close> runs on an absent field too, which it
  reads as the empty string.
\<close>

definition field_text :: "string option \<Rightarrow> string" where
  "field_text v = (case v of None \<Rightarrow> [] | Some s \<Rightarrow> s)"

text \<open>
  \<^verbatim>\<open>body('title').trim().notEmpty().withMessage(..).isLength({ max: 100 }).withMessage(..)\<close>
\<close>

definition validate_title :: "payload \<Rightarrow> verror list" where
  "validate_title b =
     (let v = trim (field_text (p_title b)) in
      (if v = [] then [(''title'', ''Title is required'')] else []) @
      (if 100 < length v
       then [(''title'', ''Title cannot be more than 100 characters'')] else []))"

text \<open>\<^verbatim>\<open>body('description').optional().trim().isLength({ max: 500 }).withMessage(..)\<close>\<close>

definition validate_description :: "payload \<Rightarrow> verror list" where
  "validate_description b =
     (case p_description b of
        None \<Rightarrow> []
      | Some s \<Rightarrow>
          (if 500 < length (trim s)
           then [(''description'', ''Description cannot be more than 500 characters'')]
           else []))"

text \<open>\<^verbatim>\<open>body('category').isIn([..]).withMessage('Invalid category')\<close>\<close>

definition validate_category :: "payload \<Rightarrow> verror list" where
  "validate_category b =
     (if field_text (p_category b) \<in> set categories then []
      else [(''category'', ''Invalid category'')])"

text \<open>\<^verbatim>\<open>body('priority').isIn([..]).withMessage('Invalid priority level')\<close>\<close>

definition validate_priority :: "payload \<Rightarrow> verror list" where
  "validate_priority b =
     (if field_text (p_priority b) \<in> set priorities then []
      else [(''priority'', ''Invalid priority level'')])"

text \<open>\<^verbatim>\<open>body('status').optional().isIn([..]).withMessage('Invalid status')\<close>\<close>

definition validate_status :: "payload \<Rightarrow> verror list" where
  "validate_status b =
     (case p_status b of
        None \<Rightarrow> []
      | Some s \<Rightarrow> (if s \<in> set statuses then [] else [(''status'', ''Invalid status'')]))"

text \<open>
  The custom validator of both date chains:
  \<^verbatim>\<open>value && new Date(value) <= new Date()\<close>. A comparison with an invalid date
  is false.
\<close>

definition not_in_future :: "env \<Rightarrow> string \<Rightarrow> bool" where
  "not_in_future e v \<longleftrightarrow>
     v \<noteq> [] \<and> (case parseDate e v of None \<Rightarrow> False | Some t \<Rightarrow> t \<le> now e)"

text \<open>
  \<^verbatim>\<open>body(field).optional().isISO8601().withMessage(format).custom(..)\<close>: both
  validators of the chain run, and each reports its own error.
\<close>

definition validate_date :: "env \<Rightarrow> string \<Rightarrow> string \<Rightarrow> string \<Rightarrow> string option \<Rightarrow> verror list" where
  "validate_date e field format future v =
     (case v of
        None \<Rightarrow> []
      | Some s \<Rightarrow>
          (if isISO8601 e s then [] else [(field, format)]) @
          (if not_in_future e s then [(field, future)] else []))"

definition validate_dueDate :: "env \<Rightarrow> payload \<Rightarrow> verror list" where
  "validate_dueDate e b =
     validate_date e ''dueDate'' ''Invalid due date format''
       ''Due date must be in the future'' (p_dueDate b)"

definition validate_reminder :: "env \<Rightarrow> payload \<Rightarrow> verror list" where
  "validate_reminder e b =
     validate_date e ''reminder'' ''Invalid reminder date format''
       ''Reminder must be in the future'' (p_reminder b)"

text \<open>\<^verbatim>\<open>validationResult(req).array()\<close> after the chains of \<^verbatim>\<open>validateTask\<close> have run.\<close>

definition validateTask :: "env \<Rightarrow> payload \<Rightarrow> verror list" where
  "validateTask e b =
     validate_title b @ validate_description b @ validate_category b @
     validate_priority b @ validate_status b @ validate_dueDate e b @ validate_reminder e b"

text \<open>
  The sanitizers of the chains write the trimmed text back into the body, which the
  handler then reads.
\<close>

definition sanitize :: "payload \<Rightarrow> payload" where
  "sanitize b =
     b\<lparr>p_title := map_option trim (p_title b),
       p_description := map_option trim (p_description b)\<rparr>"

section \<open>The schema\<close>

text \<open>
  Casting a value to the schema type \<^verbatim>\<open>Date\<close>: the empty string is stored as no date,
  text that does not parse is a cast error (outer \<open>None\<close>), reported when the document
  is saved.
\<close>

definition castDate :: "env \<Rightarrow> string \<Rightarrow> timestamp option option" where
  "castDate e s =
     (if s = [] then Some None
      else (case parseDate e s of None \<Rightarrow> None | Some t \<Rightarrow> Some (Some t)))"

text \<open>
  The validators of the schema paths, which \<^verbatim>\<open>save()\<close> runs on the document:
  required and maximal lengths, the enumerations, and
  \<^verbatim>\<open>!value || value > new Date()\<close> on both dates.
\<close>

definition date_valid :: "env \<Rightarrow> timestamp option \<Rightarrow> bool" where
  "date_valid e v \<longleftrightarrow> (case v of None \<Rightarrow> True | Some t \<Rightarrow> now e < t)"

definition schema_valid :: "env \<Rightarrow> task \<Rightarrow> bool" where
  "schema_valid e t \<longleftrightarrow>
     title t \<noteq> [] \<and> length (title t) \<le> 100 \<and>
     (case description t of None \<Rightarrow> True | Some d \<Rightarrow> length d \<le> 500) \<and>
     category t \<in> set categories \<and>
     priority t \<in> set priorities \<and>
     status t \<in> set statuses \<and>
     date_valid e (dueDate t) \<and>
     date_valid e (reminder t)"

text \<open>
  \<^verbatim>\<open>new Task(fields)\<close> with a generated identifier: the setters trim the text fields,
  absent paths take the schema defaults, \<^verbatim>\<open>createdAt\<close> is the time of creation. The
  result is \<open>None\<close> for a document that cannot be saved because a date does not cast
  or the required user reference is absent.
\<close>

definition new_Task :: "env \<Rightarrow> object_id \<Rightarrow> payload \<Rightarrow> task option" where
  "new_Task e fresh b =
     (case (p_user b,
            (case p_dueDate b of None \<Rightarrow> Some None | Some s \<Rightarrow> castDate e s),
            (case p_reminder b of None \<Rightarrow> Some None | Some s \<Rightarrow> castDate e s)) of
        (Some u, Some d, Some r) \<Rightarrow>
          Some \<lparr>task_id = fresh,
                title = trim (field_text (p_title b)),
                description = map_option trim (p_description b),
                category = (case p_category b of None \<Rightarrow> ''Personal'' | Some c \<Rightarrow> c),
                priority = (case p_priority b of None \<Rightarrow> ''Medium'' | Some p \<Rightarrow> p),
                status = (case p_status b of None \<Rightarrow> ''Pending'' | Some s \<Rightarrow> s),
                dueDate = d,
                reminder = r,
                order = (case p_order b of None \<Rightarrow> 0 | Some n \<Rightarrow> n),
                user = u,
                createdAt = now e,
                completedAt = p_completedAt b\<rparr>
      | _ \<Rightarrow> None)"

section \<open>The collection\<close>

text \<open>\<^verbatim>\<open>findOne(filter)\<close>: the first document that matches.\<close>

definition findOne :: "(task \<Rightarrow> bool) \<Rightarrow> task list \<Rightarrow> task option" where
  "findOne P store = find P store"

text \<open>\<^verbatim>\<open>updateOne(filter, update)\<close>: the first document that matches is updated.\<close>

fun updateOne :: "(task \<Rightarrow> bool) \<Rightarrow> (task \<Rightarrow> task) \<Rightarrow> task list \<Rightarrow> task list" where
  "updateOne P f [] = []"
| "updateOne P f (t # ts) = (if P t then f t # ts else t # updateOne P f ts)"


text \<open>
  \<^verbatim>\<open>save()\<close> of a new document: validation, then the insertion, which the unique index
  on the identifier refuses for an identifier already in the collection. \<open>None\<close> is
  the rejected promise.
\<close>

definition save_new :: "env \<Rightarrow> task \<Rightarrow> task list \<Rightarrow> task list option" where
  "save_new e doc store =
     (if schema_valid e doc \<and> task_id doc \<notin> set (map task_id store)
      then Some (store @ [doc]) else None)"

text \<open>\<^verbatim>\<open>save()\<close> of a document loaded from the collection: validation, then the write.\<close>

definition save_loaded :: "env \<Rightarrow> task \<Rightarrow> task list \<Rightarrow> task list option" where
  "save_loaded e doc store =
     (if schema_valid e doc
      then Some (updateOne (\<lambda>t. task_id t = task_id doc) (\<lambda>t. doc) store) else None)"

section \<open>Create\<close>

text \<open>
  \<^verbatim>\<open>router.post('/', validateTask, ..)\<close>: 400 with the errors when validation fails,
  otherwise \<^verbatim>\<open>new Task({...req.body, user: req.user.id})\<close> is saved and returned; a
  rejected save is caught and answered with 500.
\<close>

definition create_task ::
  "env \<Rightarrow> object_id \<Rightarrow> object_id \<Rightarrow> payload \<Rightarrow> task list \<Rightarrow> (failure + task) \<times> task list" where
  "create_task e caller fresh body store =
     (let errors = validateTask e body in
      if errors \<noteq> [] then (Inl (ValidationFailed errors), store)
      else
        (case new_Task e fresh ((sanitize body)\<lparr>p_user := Some caller\<rparr>) of
           None \<Rightarrow> (Inl ServerFault, store)
         | Some doc \<Rightarrow>
             (case save_new e doc store of
                None \<Rightarrow> (Inl ServerFault, store)
              | Some store' \<Rightarrow> (Inr doc, store'))))"

section \<open>Update\<close>

text \<open>
  The merge loop of the update handler,
  \<^verbatim>\<open>Object.keys(req.body).forEach(key => { task[key] = req.body[key]; })\<close>: every
  path present in the body is assigned through its setter, the other paths keep their
  values. The result is \<open>None\<close> when a date of the body does not cast, which the
  later \<^verbatim>\<open>save()\<close> reports.
\<close>

definition assign :: "env \<Rightarrow> payload \<Rightarrow> task \<Rightarrow> task option" where
  "assign e b t =
     (case ((case p_dueDate b of None \<Rightarrow> Some (dueDate t) | Some s \<Rightarrow> castDate e s),
            (case p_reminder b of None \<Rightarrow> Some (reminder t) | Some s \<Rightarrow> castDate e s)) of
        (Some d, Some r) \<Rightarrow>
          Some (t\<lparr>title := (case p_title b of None \<Rightarrow> title t | Some s \<Rightarrow> trim s),
                  description :=
                    (case p_description b of None \<Rightarrow> description t | Some s \<Rightarrow> Some (trim s)),
                  category := (case p_category b of None \<Rightarrow> category t | Some c \<Rightarrow> c),
                  priority := (case p_priority b of None \<Rightarrow> priority t | Some p \<Rightarrow> p),
                  status := (case p_status b of None \<Rightarrow> status t | Some s \<Rightarrow> s),
                  dueDate := d,
                  reminder := r,
                  order := (case p_order b of None \<Rightarrow> order t | Some n \<Rightarrow> n),
                  user := (case p_user b of None \<Rightarrow> user t | Some u \<Rightarrow> u),
                  completedAt :=
                    (case p_completedAt b of None \<Rightarrow> completedAt t | Some c \<Rightarrow> Some c)\<rparr>)
      | _ \<Rightarrow> None)"

text \<open>
  The statement after the loop, on the task as the loop has left it:
  \<^verbatim>\<open>if (req.body.status === 'Completed' && task.status !== 'Completed')
     task.completedAt = new Date();\<close>
\<close>

definition stamp_completed :: "env \<Rightarrow> payload \<Rightarrow> task \<Rightarrow> task" where
  "stamp_completed e b t =
     (if p_status b = Some ''Completed'' \<and> status t \<noteq> ''Completed''
      then t\<lparr>completedAt := Some (now e)\<rparr> else t)"

text \<open>
  \<^verbatim>\<open>router.put('/:id', validateTask, ..)\<close>: validation of the body, then the lookup
  by identifier and caller, then the merge, the completion stamp and the save.
\<close>

definition update_task ::
  "env \<Rightarrow> object_id \<Rightarrow> object_id \<Rightarrow> payload \<Rightarrow> task list \<Rightarrow> (failure + task) \<times> task list" where
  "update_task e caller ident body store =
     (let errors = validateTask e body in
      if errors \<noteq> [] then (Inl (ValidationFailed errors), store)
      else
        (case findOne (\<lambda>t. task_id t = ident \<and> user t = caller) store of
           None \<Rightarrow> (Inl (NotFound ''Task not found''), store)
         | Some found \<Rightarrow>
             (case assign e (sanitize body) found of
                None \<Rightarrow> (Inl ServerFault, store)
              | Some merged \<Rightarrow>
                  (let doc = stamp_completed e (sanitize body) merged in
                   case save_loaded e doc store of
                     None \<Rightarrow> (Inl ServerFault, store)
                   | Some store' \<Rightarrow> (Inr doc, store')))))"

section \<open>Delete\<close>


section \<open>List\<close>

text \<open>The query string of \<^verbatim>\<open>GET /\<close>: each parameter is a string or absent.\<close>

record list_params =
  q_category :: "string option"
  q_status :: "string option"
  q_priority :: "string option"
  q_dueDate :: "string option"

text \<open>
  The query object the handler builds: the caller, the exact-match conditions, and the
  closed range of due dates.
\<close>

record task_query =
  f_user :: object_id
  f_category :: "string option"
  f_status :: "string option"
  f_priority :: "string option"
  f_dueDate :: "(timestamp \<times> timestamp) option"

definition matches :: "task_query \<Rightarrow> task \<Rightarrow> bool" where
  "matches f t \<longleftrightarrow>
     user t = f_user f \<and>
     (case f_category f of None \<Rightarrow> True | Some c \<Rightarrow> category t = c) \<and>
     (case f_status f of None \<Rightarrow> True | Some s \<Rightarrow> status t = s) \<and>
     (case f_priority f of None \<Rightarrow> True | Some p \<Rightarrow> priority t = p) \<and>
     (case f_dueDate f of
        None \<Rightarrow> True
      | Some (lo, hi) \<Rightarrow> (case dueDate t of None \<Rightarrow> False | Some d \<Rightarrow> lo \<le> d \<and> d \<le> hi))"

text \<open>\<^verbatim>\<open>if (category) ..\<close>: a parameter counts when it is a non-empty string.\<close>

definition truthy :: "string option \<Rightarrow> string option" where
  "truthy v = (case v of None \<Rightarrow> None | Some s \<Rightarrow> (if s = [] then None else Some s))"

definition ms_per_day :: int where
  "ms_per_day = 86400000"

text \<open>
  \<^verbatim>\<open>setHours(0, 0, 0, 0)\<close> and \<^verbatim>\<open>setHours(23, 59, 59, 999)\<close> on an instant: the first
  and the last millisecond of the local calendar day that holds it.
\<close>

definition local_day :: "env \<Rightarrow> timestamp \<Rightarrow> int" where
  "local_day e t = (t + tz_offset e) div ms_per_day"

definition startOfDay :: "env \<Rightarrow> timestamp \<Rightarrow> timestamp" where
  "startOfDay e t = local_day e t * ms_per_day - tz_offset e"

definition endOfDay :: "env \<Rightarrow> timestamp \<Rightarrow> timestamp" where
  "endOfDay e t = startOfDay e t + (ms_per_day - 1)"

text \<open>
  \<^verbatim>\<open>Task.find(query).sort({ order: 1 })\<close>; documents of equal order stay in the order
  of the collection.
\<close>

definition find_sorted :: "task_query \<Rightarrow> task list \<Rightarrow> task list" where
  "find_sorted f store = sort_key order (filter (matches f) store)"

text \<open>
  \<^verbatim>\<open>router.get('/', ..)\<close>. A due date that does not parse gives a query on an invalid
  date, which the driver rejects: the handler answers 500.
\<close>

definition list_tasks :: "env \<Rightarrow> object_id \<Rightarrow> list_params \<Rightarrow> task list \<Rightarrow> failure + task list" where
  "list_tasks e caller q store =
     (let base = \<lparr>f_user = caller,
                  f_category = truthy (q_category q),
                  f_status = truthy (q_status q),
                  f_priority = truthy (q_priority q),
                  f_dueDate = None\<rparr> in
      case truthy (q_dueDate q) of
        None \<Rightarrow> Inr (find_sorted base store)
      | Some s \<Rightarrow>
          (case parseDate e s of
             None \<Rightarrow> Inl ServerFault
           | Some t \<Rightarrow>
               Inr (find_sorted (base\<lparr>f_dueDate := Some (startOfDay e t, endOfDay e t)\<rparr>) store)))"

section \<open>Reorder\<close>

text \<open>
  \<^verbatim>\<open>req.body.tasks\<close> of a reorder request: not an array, or an array of objects, of
  which the handler reads the \<^verbatim>\<open>_id\<close>.
\<close>

datatype reorder_body = NotArray | TaskArray "object_id list"

text \<open>\<^verbatim>\<open>Task.bulkWrite(ops)\<close>: the operations run one after the other, in order.\<close>

definition bulkWrite :: "((task \<Rightarrow> bool) \<times> (task \<Rightarrow> task)) list \<Rightarrow> task list \<Rightarrow> task list" where
  "bulkWrite ops store = fold (\<lambda>(P, f). updateOne P f) ops store"

text \<open>
  The operation built for the element at \<open>index\<close>: filter
  \<^verbatim>\<open>{ _id: task._id, user: req.user.id }\<close>, update \<^verbatim>\<open>{ $set: { order: index } }\<close>.
\<close>

definition reorder_op :: "object_id \<Rightarrow> nat \<times> object_id \<Rightarrow> (task \<Rightarrow> bool) \<times> (task \<Rightarrow> task)" where
  "reorder_op caller = (\<lambda>(index, ident).
     (\<lambda>t. task_id t = ident \<and> user t = caller, \<lambda>t. t\<lparr>order := int index\<rparr>))"

text \<open>The handler registered as \<^verbatim>\<open>router.put('/reorder', ..)\<close>.\<close>

definition reorder_tasks ::
  "object_id \<Rightarrow> reorder_body \<Rightarrow> task list \<Rightarrow> (failure + string) \<times> task list" where
  "reorder_tasks caller body store =
     (case body of
        NotArray \<Rightarrow> (Inl (BadRequest ''Invalid request format''), store)
      | TaskArray ids \<Rightarrow>
          (Inr ''Tasks reordered successfully'',
           bulkWrite (map (reorder_op caller) (enumerate 0 ids)) store))"

section \<open>Routing\<close>

text \<open>
  The router tries its routes in the order of registration and runs the first whose
  method and path match; no handler of this router passes the request on. A path is
  the list of its segments; a named segment matches any non-empty segment, a literal
  one is compared without regard to case.
\<close>

datatype http_method = GET | POST | PUT | DELETE

datatype segment = Literal string | Param string

datatype handler =
  ListTasks | CreateTask | UpdateTask | DeleteTask | ReorderTasks
  | TasksByCategory | TasksByDue

definition to_lower :: "char \<Rightarrow> char" where
  "to_lower c =
     (let n = (of_char c :: nat) in if 65 \<le> n \<and> n \<le> 90 then char_of (n + 32) else c)"

fun match_path :: "segment list \<Rightarrow> string list \<Rightarrow> (string \<times> string) list option" where
  "match_path [] [] = Some []"
| "match_path (Literal l # ps) (s # ss) =
     (if map to_lower l = map to_lower s then match_path ps ss else None)"
| "match_path (Param n # ps) (s # ss) =
     (if s = [] then None else map_option ((#) (n, s)) (match_path ps ss))"
| "match_path ps ss = None"

definition routes :: "(http_method \<times> segment list \<times> handler) list" where
  "routes =
     [(GET, [], ListTasks),
      (POST, [], CreateTask),
      (PUT, [Param ''id''], UpdateTask),
      (DELETE, [Param ''id''], DeleteTask),
      (PUT, [Literal ''reorder''], ReorderTasks),
      (GET, [Literal ''category'', Param ''category''], TasksByCategory),
      (GET, [Literal ''due'', Param ''date''], TasksByDue)]"

fun first_match ::
  "(http_method \<times> segment list \<times> handler) list \<Rightarrow> http_method \<Rightarrow> string list \<Rightarrow>
     (handler \<times> (string \<times> string) list) option" where
  "first_match [] m path = None"
| "first_match ((m', pattern, h) # rs) m path =
     (if m' = m
      then (case match_path pattern path of
              Some params \<Rightarrow> Some (h, params)
            | None \<Rightarrow> first_match rs m path)
      else first_match rs m path)"

definition dispatch :: "http_method \<Rightarrow> string list \<Rightarrow> (handler \<times> (string \<times> string) list) option" where
  "dispatch m path = first_match routes m path"

section \<open>Notions used in the statements\<close>

text \<open>A date of the body that the schema can cast, or no date at all.\<close>

definition castable :: "env \<Rightarrow> string option \<Rightarrow> bool" where
  "castable e v \<longleftrightarrow> (case v of None \<Rightarrow> True | Some s \<Rightarrow> castDate e s \<noteq> None)"

text \<open>What one operation of a reorder request does to one document.\<close>

definition reorder_step :: "object_id \<Rightarrow> nat \<times> object_id \<Rightarrow> task \<Rightarrow> task" where
  "reorder_step caller p t =
     (if task_id t = snd p \<and> user t = caller then t\<lparr>order := int (fst p)\<rparr> else t)"

subsection \<open>Concrete requests\<close>

text \<open>A server on UTC whose runtime parses no text of the requests below as a date.\<close>

definition env0 :: env where
  "env0 = \<lparr>now = 1000, tz_offset = 0, isISO8601 = (\<lambda>s. True), parseDate = (\<lambda>s. None)\<rparr>"

text \<open>
  A server five hours west of UTC, on 2025-01-01. \<^verbatim>\<open>new Date('2024-01-15')\<close> is
  midnight UTC of that date, day 19737 since the epoch.
\<close>

definition env_west :: env where
  "env_west = \<lparr>now = 1735689600000, tz_offset = - 18000000, isISO8601 = (\<lambda>s. True),
     parseDate = (\<lambda>s. if s = ''2024-01-15'' then Some 1705276800000 else None)\<rparr>"

definition no_fields :: payload where
  "no_fields = \<lparr>p_title = None, p_description = None, p_category = None, p_priority = None,
     p_status = None, p_dueDate = None, p_reminder = None, p_order = None, p_user = None,
     p_completedAt = None\<rparr>"

definition milk_fields :: payload where
  "milk_fields = no_fields\<lparr>p_title := Some ''Buy milk'', p_category := Some ''Personal'',
     p_priority := Some ''Low''\<rparr>"

definition no_params :: list_params where
  "no_params = \<lparr>q_category = None, q_status = None, q_priority = None, q_dueDate = None\<rparr>"

text \<open>A pending task of principal 1, a task of principal 2, and a second task of principal 1.\<close>

definition milk :: task where
  "milk = \<lparr>task_id = 7, title = ''Buy milk'', description = None, category = ''Personal'',
     priority = ''Low'', status = ''Pending'', dueDate = None, reminder = None, order = 0,
     user = 1, createdAt = 500, completedAt = None\<rparr>"

definition foreign :: task where
  "foreign = milk\<lparr>task_id := 9, user := 2\<rparr>"

definition chores :: task where
  "chores = milk\<lparr>task_id := 8, title := ''Chores''\<rparr>"

text \<open>
  Two tasks of principal 1, due at noon local time of the server \<open>env_west\<close> on
  2024-01-15 and on 2024-01-14.
\<close>

definition due_jan15 :: task where
  "due_jan15 = milk\<lparr>task_id := 15, dueDate := Some 1705338000000\<rparr>"

definition due_jan14 :: task where
  "due_jan14 = milk\<lparr>task_id := 14, dueDate := Some 1705251600000\<rparr>"

section \<open>Validation\<close>

lemmas validate_defs = validateTask_def validate_title_def validate_description_def
  validate_category_def validate_priority_def validate_status_def validate_dueDate_def
  validate_reminder_def validate_date_def not_in_future_def field_text_def trim_def
  is_space_def categories_def priorities_def statuses_def

lemma dropWhile_fixed: "xs = [] \<or> \<not> P (hd xs) \<Longrightarrow> dropWhile P xs = xs"
  by (cases xs) auto

lemma last_dropWhile: "dropWhile P xs \<noteq> [] \<Longrightarrow> last (dropWhile P xs) = last xs"
  by (induction xs) (auto split: if_splits)

text \<open>Trimming twice, by the sanitizer and by the setter of the schema, is trimming once.\<close>

lemma trim_idem: "trim (trim s) = trim s"
proof -
  define u where "u = dropWhile is_space s"
  define v where "v = dropWhile is_space (rev u)"
  have u: "u = [] \<or> \<not> is_space (hd u)"
    unfolding u_def by (metis hd_dropWhile)
  have "rev v = [] \<or> \<not> is_space (hd (rev v))"
  proof (cases "v = []")
    case True
    then show ?thesis by simp
  next
    case False
    then have "last v = last (rev u)"
      unfolding v_def by (rule last_dropWhile)
    moreover from False have "u \<noteq> []"
      unfolding v_def by auto
    ultimately have "last v = hd u"
      by (simp add: last_rev)
    with u \<open>u \<noteq> []\<close> False show ?thesis
      by (simp add: hd_rev)
  qed
  then have "dropWhile is_space (rev v) = rev v"
    by (rule dropWhile_fixed)
  moreover have "dropWhile is_space v = v"
    unfolding v_def by (rule dropWhile_idem)
  ultimately show ?thesis
    by (simp add: trim_def u_def v_def)
qed

lemma validateTask_Nil:
  "validateTask e b = [] \<longleftrightarrow>
     validate_title b = [] \<and> validate_description b = [] \<and> validate_category b = [] \<and>
     validate_priority b = [] \<and> validate_status b = [] \<and> validate_dueDate e b = [] \<and>
     validate_reminder e b = []"
  by (simp add: validateTask_def)

lemma validate_title_Nil:
  "validate_title b = [] \<longleftrightarrow>
     trim (field_text (p_title b)) \<noteq> [] \<and> length (trim (field_text (p_title b))) \<le> 100"
  by (auto simp: validate_title_def Let_def)

lemma validate_description_Nil:
  "validate_description b = [] \<longleftrightarrow> (\<forall>s. p_description b = Some s \<longrightarrow> length (trim s) \<le> 500)"
  by (auto simp: validate_description_def split: option.splits)

lemma validate_category_Nil:
  "validate_category b = [] \<longleftrightarrow> field_text (p_category b) \<in> set categories"
  by (simp add: validate_category_def)

lemma validate_priority_Nil:
  "validate_priority b = [] \<longleftrightarrow> field_text (p_priority b) \<in> set priorities"
  by (simp add: validate_priority_def)

lemma validate_status_Nil:
  "validate_status b = [] \<longleftrightarrow> (\<forall>s. p_status b = Some s \<longrightarrow> s \<in> set statuses)"
  by (auto simp: validate_status_def split: option.splits)

lemma validate_date_Nil:
  "validate_date e f m1 m2 v = [] \<longleftrightarrow>
     (\<forall>s. v = Some s \<longrightarrow> isISO8601 e s \<and> \<not> not_in_future e s)"
  by (auto simp: validate_date_def split: option.splits)

lemma category_present:
  "field_text v \<in> set categories \<Longrightarrow> \<exists>c. v = Some c \<and> c \<in> set categories"
  by (cases v) (auto simp: field_text_def categories_def)

lemma priority_present:
  "field_text v \<in> set priorities \<Longrightarrow> \<exists>c. v = Some c \<and> c \<in> set priorities"
  by (cases v) (auto simp: field_text_def priorities_def)

lemma title_present: "trim (field_text v) \<noteq> [] \<Longrightarrow> \<exists>s. v = Some s"
  by (cases v) (auto simp: field_text_def trim_def)

lemma castDate_future:
  "\<not> not_in_future e s \<Longrightarrow> castDate e s = Some d \<Longrightarrow> date_valid e d"
  by (auto simp: not_in_future_def castDate_def date_valid_def split: option.splits if_splits)


text \<open>
  A body that passes the middleware makes a document that passes the validators of the
  schema, provided its dates cast.
\<close>

lemma new_Task_valid:
  assumes ok: "validateTask e b = []"
    and d: "castable e (p_dueDate b)" and r: "castable e (p_reminder b)"
  shows "\<exists>doc. new_Task e fresh ((sanitize b)\<lparr>p_user := Some caller\<rparr>) = Some doc \<and>
           schema_valid e doc \<and> task_id doc = fresh"
proof -
  from ok have t: "trim (field_text (p_title b)) \<noteq> []"
      "length (trim (field_text (p_title b))) \<le> 100"
    and de: "\<forall>s. p_description b = Some s \<longrightarrow> length (trim s) \<le> 500"
    and c: "field_text (p_category b) \<in> set categories"
    and p: "field_text (p_priority b) \<in> set priorities"
    and s: "\<forall>s. p_status b = Some s \<longrightarrow> s \<in> set statuses"
    and dd: "\<forall>s. p_dueDate b = Some s \<longrightarrow> \<not> not_in_future e s"
    and rr: "\<forall>s. p_reminder b = Some s \<longrightarrow> \<not> not_in_future e s"
    by (simp_all add: validateTask_Nil validate_title_Nil validate_description_Nil
        validate_category_Nil validate_priority_Nil validate_status_Nil validate_dueDate_def
        validate_reminder_def validate_date_Nil)
  from t obtain ti where ti: "p_title b = Some ti"
    using title_present by blast
  from c obtain ca where ca: "p_category b = Some ca" "ca \<in> set categories"
    using category_present by blast
  from p obtain pr where pr: "p_priority b = Some pr" "pr \<in> set priorities"
    using priority_present by blast
  obtain dv where dv:
    "(case p_dueDate b of None \<Rightarrow> Some None | Some s \<Rightarrow> castDate e s) = Some dv"
    using d by (auto simp: castable_def split: option.splits)
  obtain rv where rv:
    "(case p_reminder b of None \<Rightarrow> Some None | Some s \<Rightarrow> castDate e s) = Some rv"
    using r by (auto simp: castable_def split: option.splits)
  have dvv: "date_valid e dv"
    using dv dd castDate_future by (cases "p_dueDate b") (auto simp: date_valid_def)
  have rvv: "date_valid e rv"
    using rv rr castDate_future by (cases "p_reminder b") (auto simp: date_valid_def)
  have tt: "trim (trim ti) \<noteq> []" "length (trim (trim ti)) \<le> 100"
    using t ti by (simp_all add: trim_idem field_text_def)
  have dl: "case map_option trim (map_option trim (p_description b)) of
              None \<Rightarrow> True | Some d \<Rightarrow> length d \<le> 500"
    using de by (cases "p_description b") (simp_all add: trim_idem)
  have st: "(case p_status b of None \<Rightarrow> ''Pending'' | Some s \<Rightarrow> s) \<in> set statuses"
    using s by (cases "p_status b") (simp_all add: statuses_def)
  show ?thesis
    using ti ca pr dv rv dvv rvv tt dl st
    by (simp add: new_Task_def sanitize_def schema_valid_def field_text_def)
qed

section \<open>Create: owner and defaults\<close>

text \<open>
  Claim C7. For every valid Create payload, the returned task's owner equals the
  authenticated caller, and when the payload omits status the returned task's status
  is Pending. A payload that passes the validation middleware, whose dates cast and for
  which the generated identifier is new, is created and returned; and whenever Create
  returns a task, its user is the caller (whatever user the payload names) and its
  status is Pending when the payload has none.
\<close>

theorem create_owner_and_default_status:
  "(validateTask e body = [] \<and> castable e (p_dueDate body) \<and> castable e (p_reminder body) \<and>
      fresh \<notin> task_id ` set store \<longrightarrow>
      (\<exists>doc. create_task e caller fresh body store = (Inr doc, store @ [doc]))) \<and>
   (\<forall>doc store'. create_task e caller fresh body store = (Inr doc, store') \<longrightarrow>
      user doc = caller \<and> (p_status body = None \<longrightarrow> status doc = ''Pending''))"
proof (intro conjI impI allI)
  assume a: "validateTask e body = [] \<and> castable e (p_dueDate body) \<and>
    castable e (p_reminder body) \<and> fresh \<notin> task_id ` set store"
  then obtain doc where doc:
    "new_Task e fresh ((sanitize body)\<lparr>p_user := Some caller\<rparr>) = Some doc"
    "schema_valid e doc" "task_id doc = fresh"
    using new_Task_valid [of e body fresh caller] by blast
  with a have "save_new e doc store = Some (store @ [doc])"
    by (simp add: save_new_def)
  with a doc(1) have "create_task e caller fresh body store = (Inr doc, store @ [doc])"
    by (simp add: create_task_def)
  then show "\<exists>doc. create_task e caller fresh body store = (Inr doc, store @ [doc])"
    by blast
next
  fix doc store'
  assume "create_task e caller fresh body store = (Inr doc, store')"
  then have "new_Task e fresh ((sanitize body)\<lparr>p_user := Some caller\<rparr>) = Some doc"
    by (auto simp: create_task_def Let_def split: if_splits option.splits)
  then have "user doc = caller \<and>
      status doc = (case p_status body of None \<Rightarrow> ''Pending'' | Some s \<Rightarrow> s)"
    by (auto simp: new_Task_def sanitize_def split: option.splits)
  then show "user doc = caller" and "p_status body = None \<Longrightarrow> status doc = ''Pending''"
    by simp_all
qed

theorem create_owner_and_default_status_witness:
  "validateTask env0 milk_fields = [] \<and> castable env0 (p_dueDate milk_fields) \<and>
   castable env0 (p_reminder milk_fields) \<and> 7 \<notin> task_id ` set [] \<and>
   create_task env0 1 7 milk_fields [] =
     (Inr (milk\<lparr>createdAt := 1000\<rparr>), [milk\<lparr>createdAt := 1000\<rparr>]) \<and>
   p_status milk_fields = None \<and> user milk = 1 \<and> status milk = ''Pending''"
  using create_owner_and_default_status [of env0 milk_fields 7 "[]" 1]
  by (simp add: validate_defs milk_fields_def no_fields_def env0_def castable_def milk_def
      create_task_def sanitize_def new_Task_def save_new_def schema_valid_def date_valid_def)

text \<open>
  Claim C6, as stated: a Create payload that omits category succeeds and yields a task
  with category Personal, and one that omits priority succeeds and yields priority
  Medium. It does not: the chains of category and priority have no \<^verbatim>\<open>optional()\<close>,
  so a body with a valid title and priority and no category is answered with 400 and
  the error \<open>Invalid category\<close>, a body with no priority with
  \<open>Invalid priority level\<close>, and nothing is stored.
\<close>

theorem create_rejects_omitted_defaults:
  "create_task env0 1 8
     (no_fields\<lparr>p_title := Some ''Buy milk'', p_priority := Some ''Low''\<rparr>) [] =
     (Inl (ValidationFailed [(''category'', ''Invalid category'')]), []) \<and>
   create_task env0 1 8
     (no_fields\<lparr>p_title := Some ''Buy milk'', p_category := Some ''Work''\<rparr>) [] =
     (Inl (ValidationFailed [(''priority'', ''Invalid priority level'')]), [])"
  by (simp add: create_task_def validate_defs no_fields_def env0_def)

text \<open>
  The errors of a body are itemized: each field that is amiss has its entry in the list
  that the handler returns with the 400 response, for two and for three fields.
\<close>

lemma itemized2:
  assumes "A \<or> B" and "A \<longrightarrow> a \<in> set es" and "B \<longrightarrow> b \<in> set es"
    and "es \<noteq> [] \<Longrightarrow> r = (Inl (ValidationFailed es), store)"
  shows "\<exists>es'. r = (Inl (ValidationFailed es'), store) \<and>
           (A \<longrightarrow> a \<in> set es') \<and> (B \<longrightarrow> b \<in> set es')"
proof -
  from assms(1-3) have "es \<noteq> []" by auto
  with assms(2-4) show ?thesis by blast
qed


lemma category_absent:
  "p_category b = None \<Longrightarrow> (''category'', ''Invalid category'') \<in> set (validate_category b)"
  by (simp add: validate_category_def field_text_def categories_def)

lemma priority_absent:
  "p_priority b = None \<Longrightarrow>
   (''priority'', ''Invalid priority level'') \<in> set (validate_priority b)"
  by (simp add: validate_priority_def field_text_def priorities_def)


text \<open>
  Claim C6, amended. A Create payload that omits category fails with a validation
  error that itemizes \<open>Invalid category\<close>, and one that omits priority fails with
  \<open>Invalid priority level\<close>; nothing is stored. The defaults Personal and Medium
  are those of the schema: a document built without the field takes them, but Create
  validates both fields as required and so never builds one.
\<close>

theorem create_requires_category_and_priority:
  "(p_category body = None \<or> p_priority body = None \<longrightarrow>
      (\<exists>es. create_task e caller fresh body store = (Inl (ValidationFailed es), store) \<and>
            (p_category body = None \<longrightarrow> (''category'', ''Invalid category'') \<in> set es) \<and>
            (p_priority body = None \<longrightarrow> (''priority'', ''Invalid priority level'') \<in> set es))) \<and>
   (\<forall>doc. new_Task e fresh body = Some doc \<longrightarrow>
      (p_category body = None \<longrightarrow> category doc = ''Personal'') \<and>
      (p_priority body = None \<longrightarrow> priority doc = ''Medium''))"
proof (intro conjI impI allI)
  let ?es = "validateTask e body"
  assume a: "p_category body = None \<or> p_priority body = None"
  have c: "p_category body = None \<longrightarrow> (''category'', ''Invalid category'') \<in> set ?es"
    using category_absent [of body] by (simp add: validateTask_def)
  have p: "p_priority body = None \<longrightarrow> (''priority'', ''Invalid priority level'') \<in> set ?es"
    using priority_absent [of body] by (simp add: validateTask_def)
  show "\<exists>es. create_task e caller fresh body store = (Inl (ValidationFailed es), store) \<and>
            (p_category body = None \<longrightarrow> (''category'', ''Invalid category'') \<in> set es) \<and>
            (p_priority body = None \<longrightarrow> (''priority'', ''Invalid priority level'') \<in> set es)"
    by (rule itemized2 [OF a c p]) (simp add: create_task_def Let_def)
next
  fix doc
  assume "new_Task e fresh body = Some doc"
  then have "category doc = (case p_category body of None \<Rightarrow> ''Personal'' | Some c \<Rightarrow> c) \<and>
      priority doc = (case p_priority body of None \<Rightarrow> ''Medium'' | Some p \<Rightarrow> p)"
    by (auto simp: new_Task_def split: option.splits)
  then show "p_category body = None \<Longrightarrow> category doc = ''Personal''"
    and "p_priority body = None \<Longrightarrow> priority doc = ''Medium''"
    by simp_all
qed

theorem create_requires_category_and_priority_witness:
  "(p_category (no_fields\<lparr>p_title := Some ''Buy milk''\<rparr>) = None \<or>
    p_priority (no_fields\<lparr>p_title := Some ''Buy milk''\<rparr>) = None) \<and>
   create_task env0 1 8 (no_fields\<lparr>p_title := Some ''Buy milk''\<rparr>) [] =
     (Inl (ValidationFailed [(''category'', ''Invalid category''),
        (''priority'', ''Invalid priority level'')]), []) \<and>
   new_Task env0 8 (no_fields\<lparr>p_title := Some ''Buy milk'', p_user := Some 1\<rparr>) =
     Some (milk\<lparr>task_id := 8, priority := ''Medium'', createdAt := 1000\<rparr>) \<and>
   category (milk\<lparr>task_id := 8, priority := ''Medium'', createdAt := 1000\<rparr>) = ''Personal'' \<and>
   priority (milk\<lparr>task_id := 8, priority := ''Medium'', createdAt := 1000\<rparr>) = ''Medium''"
proof -
  let ?b = "no_fields\<lparr>p_title := Some ''Buy milk''\<rparr>"
  let ?u = "no_fields\<lparr>p_title := Some ''Buy milk'', p_user := Some 1\<rparr>"
  let ?d = "milk\<lparr>task_id := 8, priority := ''Medium'', createdAt := 1000\<rparr>"
  have h: "p_category ?b = None \<or> p_priority ?b = None"
    by (simp add: no_fields_def)
  have n: "new_Task env0 8 ?u = Some ?d"
    by (simp add: new_Task_def no_fields_def env0_def milk_def field_text_def trim_def
        is_space_def)
  have hu: "p_category ?u = None" "p_priority ?u = None"
    by (simp_all add: no_fields_def)
  have v: "validateTask env0 ?b =
      [(''category'', ''Invalid category''), (''priority'', ''Invalid priority level'')]"
    by (simp add: validate_defs no_fields_def env0_def)
  obtain es where es: "create_task env0 1 8 ?b [] = (Inl (ValidationFailed es), [])"
    using create_requires_category_and_priority [of ?b env0 1 8 "[]", THEN conjunct1] h
    by blast
  with v have e: "es = [(''category'', ''Invalid category''),
      (''priority'', ''Invalid priority level'')]"
    by (simp add: create_task_def)
  note d = create_requires_category_and_priority
    [of ?u env0 1 8 "[]", THEN conjunct2, rule_format, OF n]
  from d hu have "category ?d = ''Personal'' \<and> priority ?d = ''Medium''"
    by blast
  with h es e n show ?thesis by simp
qed

section \<open>Update: the completion stamp\<close>

lemmas update_defs = update_task_def findOne_def assign_def sanitize_def stamp_completed_def
  save_loaded_def schema_valid_def date_valid_def Let_def

lemma assign_status:
  assumes "assign e b t = Some merged"
  shows "status merged = (case p_status b of None \<Rightarrow> status t | Some s \<Rightarrow> s)"
proof -
  define d where "d = (case p_dueDate b of None \<Rightarrow> Some (dueDate t) | Some s \<Rightarrow> castDate e s)"
  define r where "r = (case p_reminder b of None \<Rightarrow> Some (reminder t) | Some s \<Rightarrow> castDate e s)"
  show ?thesis
  proof (cases d)
    case None
    with assms show ?thesis
      unfolding assign_def d_def [symmetric] r_def [symmetric] by simp
  next
    case d: (Some dv)
    show ?thesis
    proof (cases r)
      case None
      with assms d show ?thesis
        unfolding assign_def d_def [symmetric] r_def [symmetric] by simp
    next
      case (Some rv)
      with assms d have "merged = t\<lparr>title := (case p_title b of None \<Rightarrow> title t | Some s \<Rightarrow> trim s),
                  description :=
                    (case p_description b of None \<Rightarrow> description t | Some s \<Rightarrow> Some (trim s)),
                  category := (case p_category b of None \<Rightarrow> category t | Some c \<Rightarrow> c),
                  priority := (case p_priority b of None \<Rightarrow> priority t | Some p \<Rightarrow> p),
                  status := (case p_status b of None \<Rightarrow> status t | Some s \<Rightarrow> s),
                  dueDate := dv,
                  reminder := rv,
                  order := (case p_order b of None \<Rightarrow> order t | Some n \<Rightarrow> n),
                  user := (case p_user b of None \<Rightarrow> user t | Some u \<Rightarrow> u),
                  completedAt :=
                    (case p_completedAt b of None \<Rightarrow> completedAt t | Some c \<Rightarrow> Some c)\<rparr>"
        unfolding assign_def d_def [symmetric] r_def [symmetric] by simp
      then show ?thesis by simp
    qed
  qed
qed

text \<open>
  The merge loop has already written the status of the body into the task when the
  handler compares the two, so the comparison never finds them different and the stamp
  is never set.
\<close>

lemma stamp_completed_after_assign:
  "assign e b t = Some merged \<Longrightarrow> stamp_completed e b merged = merged"
  using assign_status [of e b t merged] by (cases "p_status b") (simp_all add: stamp_completed_def)

text \<open>
  Claim C1. An Update that sets status to Completed on a task whose prior status was
  not Completed sets completedAt to the current time; an Update that changes status
  away from Completed leaves completedAt unchanged. The handler misses the first part:
  a valid update of the pending task \<open>milk\<close> with status Completed succeeds and
  stores the task as Completed with no completedAt.
\<close>

theorem update_to_completed_not_stamped:
  "update_task env0 1 7 (milk_fields\<lparr>p_status := Some ''Completed''\<rparr>) [milk] =
     (Inr (milk\<lparr>status := ''Completed''\<rparr>), [milk\<lparr>status := ''Completed''\<rparr>]) \<and>
   status milk = ''Pending'' \<and>
   completedAt (milk\<lparr>status := ''Completed''\<rparr>) = None"
  by (simp add: update_defs validate_defs milk_fields_def no_fields_def env0_def milk_def)

section \<open>Update: the owner\<close>

text \<open>
  Claim C5. After creation the owner reference of a task is unchanged: no Update
  payload, including one that supplies a user field, can change which principal owns
  the task. The merge loop assigns every key of the body, the user among them:
  principal 1 updates the own task \<open>milk\<close> with a body that names principal 2, and
  the stored task then belongs to principal 2 and is listed for 2, not for 1.
\<close>

theorem update_reassigns_owner:
  "update_task env0 1 7 (milk_fields\<lparr>p_user := Some 2\<rparr>) [milk] =
     (Inr (milk\<lparr>user := 2\<rparr>), [milk\<lparr>user := 2\<rparr>]) \<and>
   user milk = 1 \<and>
   list_tasks env0 1 no_params [milk\<lparr>user := 2\<rparr>] = Inr [] \<and>
   list_tasks env0 2 no_params [milk\<lparr>user := 2\<rparr>] = Inr [milk\<lparr>user := 2\<rparr>]"
  by (simp add: update_defs validate_defs milk_fields_def no_fields_def env0_def milk_def
      list_tasks_def no_params_def truthy_def find_sorted_def matches_def)

section \<open>Update: validation of partial bodies\<close>




section \<open>Routing of reorder requests\<close>

text \<open>
  Claim C4. Every PUT request whose path is \<^verbatim>\<open>/reorder\<close> is dispatched to the
  Reorder handler, not to the single-task Update handler. The router does otherwise:
  \<^verbatim>\<open>PUT /:id\<close> is registered before \<^verbatim>\<open>PUT /reorder\<close>, so the request runs the
  Update handler with the identifier \<open>reorder\<close>, and no request at all reaches
  the Reorder handler.
\<close>

theorem reorder_route_shadowed:
  "dispatch PUT [''reorder''] = Some (UpdateTask, [(''id'', ''reorder'')]) \<and>
   (\<forall>m path. map_option fst (dispatch m path) \<noteq> Some ReorderTasks)"
proof (intro conjI allI)
  show "dispatch PUT [''reorder''] = Some (UpdateTask, [(''id'', ''reorder'')])"
    by (simp add: dispatch_def routes_def)
next
  fix m path
  show "map_option fst (dispatch m path) \<noteq> Some ReorderTasks"
  proof (cases path)
    case Nil
    then show ?thesis
      by (cases m) (simp_all add: dispatch_def routes_def)
  next
    case (Cons s ss)
    then show ?thesis
      by (cases m; cases ss; cases "s = []")
        (simp_all add: dispatch_def routes_def split: option.splits)
  qed
qed

section \<open>Reorder\<close>

text \<open>
  Identifiers are unique in the collection, so an update by identifier and owner is a
  map over the documents.
\<close>

lemma updateOne_distinct:
  assumes "distinct (map task_id store)"
  shows "updateOne (\<lambda>t. task_id t = ident \<and> user t = caller) f store =
         map (\<lambda>t. if task_id t = ident \<and> user t = caller then f t else t) store"
  using assms
proof (induction store)
  case Nil
  then show ?case by simp
next
  case (Cons t ts)
  show ?case
  proof (cases "task_id t = ident \<and> user t = caller")
    case True
    from Cons.prems have "task_id t \<notin> task_id ` set ts" by simp
    with True have "\<forall>x\<in>set ts. task_id x \<noteq> ident" by (metis imageI)
    then have "map (\<lambda>t. if task_id t = ident \<and> user t = caller then f t else t) ts = ts"
      by (induction ts) auto
    with True show ?thesis by simp
  next
    case False
    with Cons show ?thesis by auto
  qed
qed

lemma reorder_op_step:
  "distinct (map task_id store) \<Longrightarrow>
   (case reorder_op caller p of (P, f) \<Rightarrow> updateOne P f) store = map (reorder_step caller p) store"
  by (cases p) (simp add: reorder_op_def reorder_step_def updateOne_distinct)

lemma task_id_reorder_step: "task_id (reorder_step caller p t) = task_id t"
  by (cases p) (simp add: reorder_step_def)

lemma bulkWrite_reorder:
  "distinct (map task_id store) \<Longrightarrow>
   bulkWrite (map (reorder_op caller) ps) store = map (fold (reorder_step caller) ps) store"
proof (induction ps arbitrary: store)
  case Nil
  then show ?case by (simp add: bulkWrite_def)
next
  case (Cons p ps)
  have d: "distinct (map task_id (map (reorder_step caller p) store))"
    using Cons.prems by (simp add: o_def task_id_reorder_step)
  have "bulkWrite (map (reorder_op caller) (p # ps)) store =
        bulkWrite (map (reorder_op caller) ps) (map (reorder_step caller p) store)"
    using Cons.prems by (simp add: bulkWrite_def reorder_op_step)
  also have "\<dots> = map (fold (reorder_step caller) ps) (map (reorder_step caller p) store)"
    using d by (rule Cons.IH)
  finally show ?case by (simp add: o_def)
qed

lemma enumerate_snoc: "enumerate n (xs @ [x]) = enumerate n xs @ [(n + length xs, x)]"
  by (simp add: enumerate_append_eq)

lemma fold_reorder_fields:
  "\<exists>n. fold (reorder_step caller) ps t = t\<lparr>order := n\<rparr>"
proof (induction ps arbitrary: t)
  case Nil
  show ?case by (intro exI [of _ "order t"]) simp
next
  case (Cons p ps)
  obtain i x where p: "p = (i, x)" by (cases p)
  show ?case
  proof (cases "task_id t = x \<and> user t = caller")
    case True
    obtain n where "fold (reorder_step caller) ps (t\<lparr>order := int i\<rparr>) = (t\<lparr>order := int i\<rparr>)\<lparr>order := n\<rparr>"
      using Cons.IH by blast
    with True p have "fold (reorder_step caller) (p # ps) t = t\<lparr>order := n\<rparr>"
      by (simp add: reorder_step_def)
    then show ?thesis by blast
  next
    case False
    with p have "fold (reorder_step caller) (p # ps) t = fold (reorder_step caller) ps t"
      by (auto simp: reorder_step_def)
    with Cons.IH show ?thesis by simp
  qed
qed

lemma fold_reorder_keeps:
  "task_id (fold (reorder_step caller) ps t) = task_id t \<and>
   user (fold (reorder_step caller) ps t) = user t"
proof -
  obtain n where "fold (reorder_step caller) ps t = t\<lparr>order := n\<rparr>"
    using fold_reorder_fields by blast
  then show ?thesis by simp
qed

lemma fold_reorder_untouched:
  "user t \<noteq> caller \<or> task_id t \<notin> snd ` set ps \<Longrightarrow> fold (reorder_step caller) ps t = t"
  by (induction ps arbitrary: t) (auto simp: reorder_step_def)

lemma fold_reorder_last:
  assumes "user t = caller" and "i < length ids" and "ids ! i = task_id t"
    and "\<forall>j. i < j \<and> j < length ids \<longrightarrow> ids ! j \<noteq> task_id t"
  shows "order (fold (reorder_step caller) (enumerate 0 ids) t) = int i"
  using assms(2-)
proof (induction ids rule: rev_induct)
  case Nil
  then show ?case by simp
next
  case (snoc x xs)
  let ?t = "fold (reorder_step caller) (enumerate 0 xs) t"
  have ft: "task_id ?t = task_id t \<and> user ?t = user t"
    by (rule fold_reorder_keeps)
  have step: "fold (reorder_step caller) (enumerate 0 (xs @ [x])) t =
              reorder_step caller (length xs, x) ?t"
    by (simp add: enumerate_snoc)
  show ?case
  proof (cases "i = length xs")
    case True
    with snoc.prems have "x = task_id t" by simp
    with True assms(1) ft show ?thesis
      unfolding step by (simp add: reorder_step_def)
  next
    case False
    with snoc.prems have i: "i < length xs" by simp
    with snoc.prems have "xs ! i = task_id t" by (simp add: nth_append)
    moreover have "\<forall>j. i < j \<and> j < length xs \<longrightarrow> xs ! j \<noteq> task_id t"
    proof (intro allI impI)
      fix j assume j: "i < j \<and> j < length xs"
      then have "(xs @ [x]) ! j \<noteq> task_id t" using snoc.prems(3) by simp
      with j show "xs ! j \<noteq> task_id t" by (simp add: nth_append)
    qed
    ultimately have ih: "order ?t = int i" using i by (intro snoc.IH)
    have "(xs @ [x]) ! length xs \<noteq> task_id t"
      using snoc.prems(3) [rule_format, of "length xs"] i by simp
    then have "x \<noteq> task_id t" by simp
    with ft ih show ?thesis
      unfolding step by (simp add: reorder_step_def)
  qed
qed

text \<open>
  Claim C3. For every owner and every ordered sequence of task identifiers passed to
  Reorder, each identified task owned by that owner has its order set to its zero-based
  position in the sequence; identifiers naming tasks of a different principal are
  silently left unchanged; an input that is not a sequence fails with a ValidationError
  (the 400 response \<open>Invalid request format\<close>). Every document keeps all its
  fields but order; a document of another principal, or one that the sequence does not
  name, is unchanged; a document of the caller has as order the position of its
  identifier, the last one should the sequence name it more than once.
\<close>

theorem reorder_sets_positions:
  assumes "distinct (map task_id store)"
  shows "reorder_tasks caller NotArray store = (Inl (BadRequest ''Invalid request format''), store) \<and>
    http_status (BadRequest ''Invalid request format'') = 400 \<and>
    (\<exists>store'. reorder_tasks caller (TaskArray ids) store = (Inr ''Tasks reordered successfully'', store') \<and>
       length store' = length store \<and>
       (\<forall>k<length store.
          (\<exists>n. store' ! k = (store ! k)\<lparr>order := n\<rparr>) \<and>
          (user (store ! k) \<noteq> caller \<or> task_id (store ! k) \<notin> set ids \<longrightarrow> store' ! k = store ! k) \<and>
          (user (store ! k) = caller \<longrightarrow>
             (\<forall>i<length ids. ids ! i = task_id (store ! k) \<and>
                 (\<forall>j. i < j \<and> j < length ids \<longrightarrow> ids ! j \<noteq> ids ! i) \<longrightarrow>
                 order (store' ! k) = int i))))"
proof -
  let ?g = "fold (reorder_step caller) (enumerate 0 ids)"
  have eq: "reorder_tasks caller (TaskArray ids) store =
            (Inr ''Tasks reordered successfully'', map ?g store)"
    using assms by (simp add: reorder_tasks_def bulkWrite_reorder)
  have "\<forall>k<length store.
          (\<exists>n. map ?g store ! k = (store ! k)\<lparr>order := n\<rparr>) \<and>
          (user (store ! k) \<noteq> caller \<or> task_id (store ! k) \<notin> set ids \<longrightarrow> map ?g store ! k = store ! k) \<and>
          (user (store ! k) = caller \<longrightarrow>
             (\<forall>i<length ids. ids ! i = task_id (store ! k) \<and>
                 (\<forall>j. i < j \<and> j < length ids \<longrightarrow> ids ! j \<noteq> ids ! i) \<longrightarrow>
                 order (map ?g store ! k) = int i))"
  proof (intro allI impI conjI)
    fix k assume k: "k < length store"
    show "\<exists>n. map ?g store ! k = (store ! k)\<lparr>order := n\<rparr>"
      using k fold_reorder_fields [of caller "enumerate 0 ids" "store ! k"] by simp
  next
    fix k assume k: "k < length store"
      and "user (store ! k) \<noteq> caller \<or> task_id (store ! k) \<notin> set ids"
    then have "user (store ! k) \<noteq> caller \<or> task_id (store ! k) \<notin> snd ` set (enumerate 0 ids)"
      using set_map [of snd "enumerate 0 ids"] by simp
    then show "map ?g store ! k = store ! k"
      using k by (simp add: fold_reorder_untouched)
  next
    fix k i assume k: "k < length store" and u: "user (store ! k) = caller"
      and i: "i < length ids"
      and h: "ids ! i = task_id (store ! k) \<and> (\<forall>j. i < j \<and> j < length ids \<longrightarrow> ids ! j \<noteq> ids ! i)"
    then have "order (?g (store ! k)) = int i"
      by (intro fold_reorder_last) auto
    with k show "order (map ?g store ! k) = int i" by simp
  qed
  moreover have "length (map ?g store) = length store"
    by simp
  ultimately have "\<exists>store'. reorder_tasks caller (TaskArray ids) store = (Inr ''Tasks reordered successfully'', store') \<and>
       length store' = length store \<and>
       (\<forall>k<length store.
          (\<exists>n. store' ! k = (store ! k)\<lparr>order := n\<rparr>) \<and>
          (user (store ! k) \<noteq> caller \<or> task_id (store ! k) \<notin> set ids \<longrightarrow> store' ! k = store ! k) \<and>
          (user (store ! k) = caller \<longrightarrow>
             (\<forall>i<length ids. ids ! i = task_id (store ! k) \<and>
                 (\<forall>j. i < j \<and> j < length ids \<longrightarrow> ids ! j \<noteq> ids ! i) \<longrightarrow>
                 order (store' ! k) = int i)))"
    using eq by blast
  moreover have "reorder_tasks caller NotArray store =
      (Inl (BadRequest ''Invalid request format''), store)"
    by (simp add: reorder_tasks_def)
  moreover have "http_status (BadRequest ''Invalid request format'') = 400"
    by simp
  ultimately show ?thesis
    by (intro conjI)
qed

theorem reorder_sets_positions_witness:
  "distinct (map task_id [milk, foreign, chores]) \<and>
   (reorder_tasks 1 NotArray [milk, foreign, chores] =
      (Inl (BadRequest ''Invalid request format''), [milk, foreign, chores]) \<and>
    http_status (BadRequest ''Invalid request format'') = 400 \<and>
    (\<exists>store'. reorder_tasks 1 (TaskArray [8, 9, 7]) [milk, foreign, chores] =
         (Inr ''Tasks reordered successfully'', store') \<and>
       length store' = length [milk, foreign, chores] \<and>
       (\<forall>k<length [milk, foreign, chores].
          (\<exists>n. store' ! k = ([milk, foreign, chores] ! k)\<lparr>order := n\<rparr>) \<and>
          (user ([milk, foreign, chores] ! k) \<noteq> 1 \<or>
             task_id ([milk, foreign, chores] ! k) \<notin> set [8, 9, 7] \<longrightarrow>
             store' ! k = [milk, foreign, chores] ! k) \<and>
          (user ([milk, foreign, chores] ! k) = 1 \<longrightarrow>
             (\<forall>i<length [8, 9, 7 :: nat]. [8, 9, 7] ! i = task_id ([milk, foreign, chores] ! k) \<and>
                 (\<forall>j. i < j \<and> j < length [8, 9, 7 :: nat] \<longrightarrow> [8, 9, 7 :: nat] ! j \<noteq> [8, 9, 7] ! i) \<longrightarrow>
                 order (store' ! k) = int i))))) \<and>
   reorder_tasks 1 (TaskArray [8, 9, 7]) [milk, foreign, chores] =
     (Inr ''Tasks reordered successfully'', [milk\<lparr>order := 2\<rparr>, foreign, chores\<lparr>order := 0\<rparr>])"
proof -
  have h: "distinct (map task_id [milk, foreign, chores])"
    by (simp add: milk_def foreign_def chores_def)
  have r: "reorder_tasks 1 (TaskArray [8, 9, 7]) [milk, foreign, chores] =
     (Inr ''Tasks reordered successfully'', [milk\<lparr>order := 2\<rparr>, foreign, chores\<lparr>order := 0\<rparr>])"
    by (simp add: reorder_tasks_def bulkWrite_def reorder_op_def enumerate_eq_zip upt_rec
        milk_def foreign_def chores_def)
  show ?thesis
    by (rule conjI [OF h conjI [OF reorder_sets_positions [OF h, of 1 "[8, 9, 7]"] r]])
qed

section \<open>Dates in the past\<close>



section \<open>List\<close>

lemma set_find_sorted: "set (find_sorted f store) = {t \<in> set store. matches f t}"
  by (simp add: find_sorted_def)

lemma sorted_find_sorted: "sorted (map order (find_sorted f store))"
  by (simp add: find_sorted_def)


text \<open>
  Whatever the parameters, a listing holds tasks of the caller only, in ascending order
  of \<open>order\<close>.
\<close>

lemma list_tasks_owner_sorted:
  "list_tasks e caller q store = Inr ts \<Longrightarrow>
   (\<forall>t\<in>set ts. user t = caller) \<and> sorted (map order ts)"
  by (auto simp: list_tasks_def Let_def set_find_sorted sorted_find_sorted matches_def
      split: option.splits)

text \<open>
  Claim C9. List returns exactly the owner's tasks matching all supplied filters,
  sorted ascending by order; a dueDate filter matches tasks whose dueDate lies within
  00:00:00.000 to 23:59:59.999 of that calendar day in server local time. The handler
  parses the date with \<^verbatim>\<open>new Date(dueDate)\<close>, which reads a calendar date as midnight
  UTC, and then moves to the bounds of the local day with \<^verbatim>\<open>setHours\<close>. On a server
  west of UTC that instant lies on the evening before: for the filter \<open>2024-01-15\<close>
  (day 19737) on the server \<open>env_west\<close>, the task due at noon local time on
  2024-01-15 is not listed and the task due at noon local time on 2024-01-14 is.
\<close>

theorem due_filter_west_of_utc:
  "parseDate env_west ''2024-01-15'' = Some (19737 * ms_per_day) \<and>
   local_day env_west 1705338000000 = 19737 \<and>
   local_day env_west 1705251600000 = 19736 \<and>
   list_tasks env_west 1 (no_params\<lparr>q_dueDate := Some ''2024-01-15''\<rparr>) [due_jan15, due_jan14] =
     Inr [due_jan14]"
  by (simp add: list_tasks_def Let_def env_west_def no_params_def truthy_def find_sorted_def
      matches_def startOfDay_def endOfDay_def local_day_def ms_per_day_def due_jan15_def
      due_jan14_def milk_def)

section \<open>Not found, and delete\<close>








end
